theory Spec2Isabelle
  imports Main "HOL-Library.Word"
begin

section \<open>Data model\<close>

text \<open>
  Sync-Talk keeps its state in three MongoDB collections (users, chats, messages) and
  reaches its clients through Socket.io rooms.  Object ids are compared through their
  string form everywhere in the code (\<open>a.toString() === b.toString()\<close>, or the
  casting \<open>includes\<close> of a Mongoose array), so an id is modelled by a value with
  decidable equality.  Dates are compared through their millisecond value.
\<close>

type_synonym oid = nat
type_synonym time = int

text \<open>
  A JavaScript string is a sequence of UTF-16 code units; \<open>length\<close>, \<open>trim\<close> and the
  \<open>maxlength\<close> validators of Mongoose count and inspect code units.  The strings that the
  code measures or trims (message content, chat name, group description) are modelled as
  lists of code units; \<open>js\<close> turns an ASCII literal into one.  Strings that are only
  stored or compared for equality (message type, emoji, the texts of the answers) stay
  plain strings.
\<close>

type_synonym code_unit = "16 word"
type_synonym jsstring = "code_unit list"

definition js :: "string \<Rightarrow> jsstring" where
  "js s = map of_char s"

text \<open>The embedded sub-documents of the Chat schema (models/Chat.js).\<close>

record unread_item =
  ur_user :: oid
  ur_count :: nat
  lastRead :: time

record typing_item =
  ty_user :: oid
  timestamp :: time

text \<open>
  The Chat document.  \<open>ur_count\<close> is a JavaScript number that only ever holds a
  counter started at 0 and advanced by \<open>+= 1\<close>; the model covers the range of safe
  integers, where that addition is exact.  The \<open>createdAt\<close>/\<open>updatedAt\<close> stamps of
  the chat and its \<open>groupAvatar\<close> URL are only used to order and decorate chat
  listings and are left out.
\<close>

record chat =
  chat_id :: oid
  chatName :: jsstring
  isGroupChat :: bool
  users :: "oid list"
  latestMessage :: "oid option"
  groupAdmin :: "oid option"
  groupDescription :: "jsstring option"
  unreadCount :: "unread_item list"
  typingUsers :: "typing_item list"

text \<open>The Message document (models/Message.js) and its reaction sub-document.\<close>

record reaction =
  rc_user :: oid
  emoji :: string
  rc_createdAt :: time

record message =
  msg_id :: oid
  sender :: oid
  content :: "jsstring option"
  msg_chat :: oid
  messageType :: string
  reactions :: "reaction list"
  replyTo :: "oid option"
  isEdited :: bool
  editedAt :: "time option"
  isDeleted :: bool
  deletedAt :: "time option"
  deletedBy :: "oid option"
  createdAt :: time

section \<open>Instance methods of the Message schema\<close>

text \<open>
  \<open>addReaction\<close>: filter out the user's reactions, then push the new one; the schema
  default stamps \<open>createdAt\<close> with the current time.
\<close>

definition addReaction :: "time \<Rightarrow> oid \<Rightarrow> string \<Rightarrow> message \<Rightarrow> message" where
  "addReaction now userId e m =
     m\<lparr>reactions := filter (\<lambda>r. rc_user r \<noteq> userId) (reactions m)
                        @ [\<lparr>rc_user = userId, emoji = e, rc_createdAt = now\<rparr>]\<rparr>"

definition removeReaction :: "oid \<Rightarrow> message \<Rightarrow> message" where
  "removeReaction userId m =
     m\<lparr>reactions := filter (\<lambda>r. rc_user r \<noteq> userId) (reactions m)\<rparr>"

definition editContent :: "time \<Rightarrow> jsstring \<Rightarrow> message \<Rightarrow> message" where
  "editContent now newContent m =
     m\<lparr>content := Some newContent, isEdited := True, editedAt := Some now\<rparr>"

definition softDelete :: "time \<Rightarrow> oid \<Rightarrow> message \<Rightarrow> message" where
  "softDelete now deletedByUserId m =
     m\<lparr>isDeleted := True, deletedAt := Some now, deletedBy := Some deletedByUserId,
       content := Some (js ''This message was deleted'')\<rparr>"

text \<open>A sequence of reaction operations on one message, applied left to right.\<close>

datatype reaction_op = AddReaction time oid string | RemoveReaction oid

fun apply_reaction_op :: "reaction_op \<Rightarrow> message \<Rightarrow> message" where
  "apply_reaction_op (AddReaction now u e) m = addReaction now u e m"
| "apply_reaction_op (RemoveReaction u) m = removeReaction u m"

fun apply_reaction_ops :: "reaction_op list \<Rightarrow> message \<Rightarrow> message" where
  "apply_reaction_ops [] m = m"
| "apply_reaction_ops (x # xs) m = apply_reaction_ops xs (apply_reaction_op x m)"

text \<open>The reactions a user has on a message, and their emojis.\<close>

definition reactions_of :: "oid \<Rightarrow> message \<Rightarrow> reaction list" where
  "reactions_of u m = filter (\<lambda>r. rc_user r = u) (reactions m)"

section \<open>Instance methods of the Chat schema\<close>

text \<open>Change the first element that satisfies a predicate, as \<open>find\<close> followed by a
  mutation of the found sub-document does.\<close>

fun update_first :: "('a \<Rightarrow> bool) \<Rightarrow> ('a \<Rightarrow> 'a) \<Rightarrow> 'a list \<Rightarrow> 'a list" where
  "update_first P f [] = []"
| "update_first P f (x # xs) = (if P x then f x # xs else x # update_first P f xs)"

definition initializeUnreadCount :: "time \<Rightarrow> oid \<Rightarrow> chat \<Rightarrow> chat" where
  "initializeUnreadCount now userId c =
     (case find (\<lambda>item. ur_user item = userId) (unreadCount c) of
        None \<Rightarrow> c\<lparr>unreadCount := unreadCount c
                      @ [\<lparr>ur_user = userId, ur_count = 0, lastRead = now\<rparr>]\<rparr>
      | Some existingUnread \<Rightarrow> c)"


definition resetUnreadCount :: "time \<Rightarrow> oid \<Rightarrow> chat \<Rightarrow> chat" where
  "resetUnreadCount now userId c =
     c\<lparr>unreadCount :=
         update_first (\<lambda>item. ur_user item = userId)
                      (\<lambda>item. item\<lparr>ur_count := 0, lastRead := now\<rparr>) (unreadCount c)\<rparr>"

definition addTypingUser :: "time \<Rightarrow> oid \<Rightarrow> chat \<Rightarrow> chat" where
  "addTypingUser now userId c =
     c\<lparr>typingUsers := filter (\<lambda>item. ty_user item \<noteq> userId) (typingUsers c)
                          @ [\<lparr>ty_user = userId, timestamp = now\<rparr>]\<rparr>"

definition removeTypingUser :: "oid \<Rightarrow> chat \<Rightarrow> chat" where
  "removeTypingUser userId c =
     c\<lparr>typingUsers := filter (\<lambda>item. ty_user item \<noteq> userId) (typingUsers c)\<rparr>"

definition cleanOldTypingIndicators :: "time \<Rightarrow> chat \<Rightarrow> chat" where
  "cleanOldTypingIndicators now c =
     (let fiveSecondsAgo = now - 5000
      in c\<lparr>typingUsers := filter (\<lambda>item. timestamp item > fiveSecondsAgo) (typingUsers c)\<rparr>)"


text \<open>A sequence of typing operations on one chat, applied left to right.\<close>

datatype typing_op = AddTyping time oid | RemoveTyping oid | CleanOld time

fun apply_typing_op :: "typing_op \<Rightarrow> chat \<Rightarrow> chat" where
  "apply_typing_op (AddTyping now u) c = addTypingUser now u c"
| "apply_typing_op (RemoveTyping u) c = removeTypingUser u c"
| "apply_typing_op (CleanOld now) c = cleanOldTypingIndicators now c"

fun apply_typing_ops :: "typing_op list \<Rightarrow> chat \<Rightarrow> chat" where
  "apply_typing_ops [] c = c"
| "apply_typing_ops (x # xs) c = apply_typing_ops xs (apply_typing_op x c)"

section \<open>The persistence store\<close>

text \<open>
  The three collections, in insertion order (the order \<open>findOne\<close> scans them in).  Of
  a user only the existence of its id matters to the handlers modelled here.
\<close>

record db =
  userIds :: "oid list"
  chats :: "chat list"
  messages :: "message list"

text \<open>A generated object id differs from every id of the collection.\<close>

definition fresh_id :: "oid list \<Rightarrow> oid" where
  "fresh_id ids = Suc (foldr max ids 0)"

definition Chat_findById :: "oid \<Rightarrow> db \<Rightarrow> chat option" where
  "Chat_findById cid d = find (\<lambda>c. chat_id c = cid) (chats d)"

definition Chat_save :: "chat \<Rightarrow> db \<Rightarrow> db" where
  "Chat_save c d = d\<lparr>chats := update_first (\<lambda>x. chat_id x = chat_id c) (\<lambda>x. c) (chats d)\<rparr>"

definition Chat_findByIdAndUpdate :: "oid \<Rightarrow> (chat \<Rightarrow> chat) \<Rightarrow> db \<Rightarrow> db" where
  "Chat_findByIdAndUpdate cid f d =
     d\<lparr>chats := update_first (\<lambda>x. chat_id x = cid) f (chats d)\<rparr>"

fun remove_first :: "('a \<Rightarrow> bool) \<Rightarrow> 'a list \<Rightarrow> 'a list" where
  "remove_first P [] = []"
| "remove_first P (x # xs) = (if P x then xs else x # remove_first P xs)"

definition Chat_findByIdAndDelete :: "oid \<Rightarrow> db \<Rightarrow> db" where
  "Chat_findByIdAndDelete cid d = d\<lparr>chats := remove_first (\<lambda>x. chat_id x = cid) (chats d)\<rparr>"

definition Message_findById :: "oid \<Rightarrow> db \<Rightarrow> message option" where
  "Message_findById mid d = find (\<lambda>m. msg_id m = mid) (messages d)"

definition Message_save :: "message \<Rightarrow> db \<Rightarrow> db" where
  "Message_save m d =
     d\<lparr>messages := update_first (\<lambda>x. msg_id x = msg_id m) (\<lambda>x. m) (messages d)\<rparr>"

definition Message_deleteMany :: "oid \<Rightarrow> db \<Rightarrow> db" where
  "Message_deleteMany cid d = d\<lparr>messages := filter (\<lambda>m. msg_chat m \<noteq> cid) (messages d)\<rparr>"

text \<open>The messages of a chat that the store holds.\<close>

definition messages_of_chat :: "oid \<Rightarrow> db \<Rightarrow> message list" where
  "messages_of_chat cid d = filter (\<lambda>m. msg_chat m = cid) (messages d)"

section \<open>JavaScript helpers\<close>

text \<open>
  \<open>String.prototype.trim\<close> strips the code units of the WhiteSpace and LineTerminator
  productions of ECMAScript from both ends: TAB, LF, VT, FF, CR, SPACE, NO-BREAK SPACE,
  the other space separators of Unicode (U+1680, U+2000 to U+200A, U+202F, U+205F,
  U+3000), LINE and PARAGRAPH SEPARATOR (U+2028, U+2029) and U+FEFF.  All of them are single
  code units.  The truth value of an optional string: absent and empty strings are
  falsy.
\<close>

definition js_whitespace :: "code_unit \<Rightarrow> bool" where
  "js_whitespace cu =
     (cu \<in> set [0x0009, 0x000A, 0x000B, 0x000C, 0x000D, 0x0020, 0x00A0, 0x1680,
                 0x2000, 0x2001, 0x2002, 0x2003, 0x2004, 0x2005, 0x2006, 0x2007, 0x2008,
                 0x2009, 0x200A, 0x2028, 0x2029, 0x202F, 0x205F, 0x3000, 0xFEFF])"

definition trim :: "jsstring \<Rightarrow> jsstring" where
  "trim s = rev (dropWhile js_whitespace (rev (dropWhile js_whitespace s)))"


text \<open>\<open>[...new Set(xs)]\<close>: the elements in the order of their first occurrence.\<close>

definition uniq :: "'a list \<Rightarrow> 'a list" where
  "uniq xs = foldl (\<lambda>acc x. if x \<in> set acc then acc else acc @ [x]) [] xs"

text \<open>The uniform envelope of the HTTP answers.\<close>

record 'a response =
  status :: nat
  success :: bool
  info :: string
  payload :: "'a option"

definition reply :: "nat \<Rightarrow> bool \<Rightarrow> string \<Rightarrow> 'a option \<Rightarrow> 'a response" where
  "reply st ok text d = \<lparr>status = st, success = ok, info = text, payload = d\<rparr>"

section \<open>Chat controllers\<close>

text \<open>
  \<open>Chat.create\<close> appends a document under a fresh id and runs the schema validation
  of the Chat schema first: a chat name of at most 100 and a description of at most 500
  characters; a failed validation throws.
\<close>

definition Chat_valid :: "chat \<Rightarrow> bool" where
  "Chat_valid c = (length (chatName c) \<le> 100
     \<and> (case groupDescription c of None \<Rightarrow> True | Some g \<Rightarrow> length g \<le> 500))"

definition Chat_create :: "chat \<Rightarrow> db \<Rightarrow> (chat \<times> db) option" where
  "Chat_create c d =
     (let newChat = c\<lparr>chat_id := fresh_id (map chat_id (chats d))\<rparr>
      in if Chat_valid newChat then Some (newChat, d\<lparr>chats := chats d @ [newChat]\<rparr>)
         else None)"

definition new_unread :: "time \<Rightarrow> oid \<Rightarrow> unread_item" where
  "new_unread now userId = \<lparr>ur_user = userId, ur_count = 0, lastRead = now\<rparr>"

text \<open>The static method \<open>findOrCreateOneOnOneChat\<close> of the Chat schema.\<close>

definition findOrCreateOneOnOneChat :: "time \<Rightarrow> oid \<Rightarrow> oid \<Rightarrow> db \<Rightarrow> chat option \<times> db" where
  "findOrCreateOneOnOneChat now userId1 userId2 d =
     (case find (\<lambda>c. isGroupChat c = False
                      \<and> (userId1 \<in> set (users c) \<and> userId2 \<in> set (users c))) (chats d) of
        Some chat \<Rightarrow> (Some chat, d)
      | None \<Rightarrow>
          (case Chat_create
                  \<lparr>chat_id = 0, chatName = js ''Private Chat'', isGroupChat = False,
                   users = [userId1, userId2], latestMessage = None, groupAdmin = None,
                   groupDescription = None,
                   unreadCount = [new_unread now userId1, new_unread now userId2],
                   typingUsers = []\<rparr> d of
             None \<Rightarrow> (None, d)
           | Some (newChat, d') \<Rightarrow> (Chat_findById (chat_id newChat) d', d')))"

text \<open>\<open>accessChat\<close>, POST /api/chats: the request of a one-on-one chat with \<open>userId\<close>
  by the authenticated user \<open>me\<close>.  The other user is looked up among the populated
  members, and populating drops the members whose user document is gone.\<close>

definition accessChat :: "time \<Rightarrow> oid \<Rightarrow> oid option \<Rightarrow> db \<Rightarrow> chat response \<times> db" where
  "accessChat now me userId d =
     (case userId of
        None \<Rightarrow> (reply 400 False ''UserId parameter is required'' None, d)
      | Some uid \<Rightarrow>
          if uid = me then (reply 400 False ''Cannot create chat with yourself'' None, d)
          else if uid \<notin> set (userIds d) then (reply 404 False ''User not found'' None, d)
          else (case findOrCreateOneOnOneChat now me uid d of
                  (None, d') \<Rightarrow> (reply 500 False ''Server error while accessing chat'' None, d')
                | (Some chat, d') \<Rightarrow>
                    (case find (\<lambda>u. u \<noteq> me) (filter (\<lambda>u. u \<in> set (userIds d')) (users chat)) of
                       None \<Rightarrow> (reply 500 False ''Server error while accessing chat'' None, d')
                     | Some otherUser \<Rightarrow>
                         (reply 200 True ''Chat accessed successfully'' (Some chat), d'))))"

text \<open>\<open>createGroupChat\<close>, POST /api/chats/group.  \<open>users\<close> is \<open>None\<close> when the body
  carries no array under that key.\<close>

definition createGroupChat ::
  "time \<Rightarrow> oid \<Rightarrow> oid list option \<Rightarrow> jsstring option \<Rightarrow> jsstring option \<Rightarrow> db
     \<Rightarrow> chat response \<times> db" where
  "createGroupChat now me usersArg chatNameArg groupDescriptionArg d =
     (case usersArg of
        None \<Rightarrow> (reply 400 False ''Group chat must have at least 2 other users'' None, d)
      | Some us \<Rightarrow>
          if length us < 2
          then (reply 400 False ''Group chat must have at least 2 other users'' None, d)
          else
            (case chatNameArg of
               None \<Rightarrow> (reply 400 False ''Group chat name is required'' None, d)
             | Some nm \<Rightarrow>
                 if nm = [] \<or> length (trim nm) = 0
                 then (reply 400 False ''Group chat name is required'' None, d)
                 else
                   let validUsers = filter (\<lambda>u. u \<in> set us) (userIds d) in
                   if length validUsers \<noteq> length us
                   then (reply 400 False ''One or more user IDs are invalid'' None, d)
                   else
                     let allUsers = me # us;
                         uniqueUsers = uniq allUsers
                     in (case Chat_create
                                \<lparr>chat_id = 0, chatName = trim nm, isGroupChat = True,
                                 users = uniqueUsers, latestMessage = None,
                                 groupAdmin = Some me,
                                 groupDescription =
                                   Some (case groupDescriptionArg of
                                           None \<Rightarrow> [] | Some g \<Rightarrow> if g = [] then [] else trim g),
                                 unreadCount = map (new_unread now) uniqueUsers,
                                 typingUsers = []\<rparr> d of
                           None \<Rightarrow>
                             (reply 500 False ''Server error while creating group chat'' None, d)
                         | Some (groupChat, d') \<Rightarrow>
                             (reply 201 True ''Group chat created successfully''
                                    (Chat_findById (chat_id groupChat) d'), d'))))"

text \<open>The middleware \<open>isGroupAdmin\<close>: it answers itself, or hands the chat on as
  \<open>req.chat\<close>.  Reading \<open>toString\<close> of an absent admin throws, which it answers
  with 500.\<close>

definition isGroupAdmin :: "oid \<Rightarrow> oid \<Rightarrow> db \<Rightarrow> chat response + chat" where
  "isGroupAdmin me chatId d =
     (case Chat_findById chatId d of
        None \<Rightarrow> Inl (reply 404 False ''Chat not found'' None)
      | Some chat \<Rightarrow>
          if \<not> isGroupChat chat then Inl (reply 400 False ''This is not a group chat'' None)
          else (case groupAdmin chat of
                  None \<Rightarrow> Inl (reply 500 False ''Server error during authorization check'' None)
                | Some adm \<Rightarrow>
                    if adm \<noteq> me
                    then Inl (reply 403 False ''Only group admin can perform this action'' None)
                    else Inr chat))"

text \<open>\<open>addToGroup\<close> and \<open>removeFromGroup\<close>, behind \<open>isGroupAdmin\<close>
  (PUT /api/chats/group/:chatId/add and /remove).  Here and in \<open>leaveGroup\<close> and
  \<open>deleteChat\<close>, \<open>groupAdmin.toString()\<close> throws when the chat has no admin, and the
  handler answers 500.\<close>

definition addToGroup :: "time \<Rightarrow> chat \<Rightarrow> oid \<Rightarrow> oid option \<Rightarrow> db \<Rightarrow> chat response \<times> db" where
  "addToGroup now reqChat chatId userId d =
     (case userId of
        None \<Rightarrow> (reply 400 False ''User ID is required'' None, d)
      | Some uid \<Rightarrow>
          if uid \<notin> set (userIds d) then (reply 404 False ''User not found'' None, d)
          else if uid \<in> set (users reqChat)
          then (reply 400 False ''User is already in the group'' None, d)
          else
            let d' = Chat_findByIdAndUpdate chatId
                       (\<lambda>c. c\<lparr>users := users c @ [uid],
                               unreadCount := unreadCount c @ [new_unread now uid]\<rparr>) d
            in (reply 200 True ''User added to group successfully'' (Chat_findById chatId d'), d'))"

definition removeFromGroup :: "chat \<Rightarrow> oid \<Rightarrow> oid option \<Rightarrow> db \<Rightarrow> chat response \<times> db" where
  "removeFromGroup reqChat chatId userId d =
     (case userId of
        None \<Rightarrow> (reply 400 False ''User ID is required'' None, d)
      | Some uid \<Rightarrow>
          if uid \<notin> set (users reqChat)
          then (reply 400 False ''User is not in the group'' None, d)
          else
            (case groupAdmin reqChat of
               None \<Rightarrow> (reply 500 False ''Server error while removing user from group'' None, d)
             | Some adm \<Rightarrow>
                 if adm = uid
                 then (reply 400 False ''Cannot remove group admin. Transfer admin rights first.''
                             None, d)
                 else
                   let d' = Chat_findByIdAndUpdate chatId
                              (\<lambda>c. c\<lparr>users := filter (\<lambda>u. u \<noteq> uid) (users c),
                                      unreadCount := filter (\<lambda>item. ur_user item \<noteq> uid)
                                                            (unreadCount c)\<rparr>) d
                   in (reply 200 True ''User removed from group successfully''
                             (Chat_findById chatId d'), d')))"

definition route_addToGroup :: "time \<Rightarrow> oid \<Rightarrow> oid \<Rightarrow> oid option \<Rightarrow> db \<Rightarrow> chat response \<times> db" where
  "route_addToGroup now me chatId userId d =
     (case isGroupAdmin me chatId d of
        Inl r \<Rightarrow> (r, d)
      | Inr reqChat \<Rightarrow> addToGroup now reqChat chatId userId d)"

definition route_removeFromGroup :: "oid \<Rightarrow> oid \<Rightarrow> oid option \<Rightarrow> db \<Rightarrow> chat response \<times> db" where
  "route_removeFromGroup me chatId userId d =
     (case isGroupAdmin me chatId d of
        Inl r \<Rightarrow> (r, d)
      | Inr reqChat \<Rightarrow> removeFromGroup reqChat chatId userId d)"

text \<open>\<open>leaveGroup\<close>, DELETE /api/chats/group/:chatId/leave.  \<open>leave_and_save\<close> is
  its last step, "Remove user from group".\<close>

definition leave_and_save :: "oid \<Rightarrow> chat \<Rightarrow> db \<Rightarrow> chat response \<times> db" where
  "leave_and_save me c d =
     (reply 200 True ''Left group successfully'' None,
      Chat_save (c\<lparr>users := filter (\<lambda>userId. userId \<noteq> me) (users c),
                    unreadCount := filter (\<lambda>item. ur_user item \<noteq> me) (unreadCount c)\<rparr>) d)"

definition leaveGroup :: "oid \<Rightarrow> oid \<Rightarrow> db \<Rightarrow> chat response \<times> db" where
  "leaveGroup me chatId d =
     (case Chat_findById chatId d of
        None \<Rightarrow> (reply 404 False ''Chat not found'' None, d)
      | Some chat \<Rightarrow>
          if \<not> isGroupChat chat then (reply 400 False ''This is not a group chat'' None, d)
          else if me \<notin> set (users chat)
          then (reply 400 False ''You are not a member of this group'' None, d)
          else
            (case groupAdmin chat of
               None \<Rightarrow> (reply 500 False ''Server error while leaving group'' None, d)
             | Some adm \<Rightarrow>
                 if adm = me
                 then (case filter (\<lambda>userId. userId \<noteq> me) (users chat) of
                         first # rest \<Rightarrow> leave_and_save me (chat\<lparr>groupAdmin := Some first\<rparr>) d
                       | [] \<Rightarrow>
                           (reply 200 True ''Group deleted as you were the last member'' None,
                            Chat_findByIdAndDelete (chat_id chat) d))
                 else leave_and_save me chat d))"

text \<open>\<open>deleteChat\<close>, DELETE /api/chats/:chatId.\<close>

definition deleteChat :: "oid \<Rightarrow> oid \<Rightarrow> db \<Rightarrow> chat response \<times> db" where
  "deleteChat me chatId d =
     (case Chat_findById chatId d of
        None \<Rightarrow> (reply 404 False ''Chat not found'' None, d)
      | Some chat \<Rightarrow>
          if me \<notin> set (users chat)
          then (reply 403 False ''You are not authorized to delete this chat'' None, d)
          else if isGroupChat chat \<and> groupAdmin chat = None
          then (reply 500 False ''Server error while deleting chat'' None, d)
          else if isGroupChat chat \<and> groupAdmin chat \<noteq> Some me
          then (reply 403 False ''Only group admin can delete the group'' None, d)
          else (reply 200 True ''Chat deleted successfully'' None,
                Chat_findByIdAndDelete (chat_id chat) (Message_deleteMany (chat_id chat) d)))"

text \<open>
  The stores that the chat operations build: start without chats, then create
  one-on-one chats, create groups, add and remove members and leave groups, with any
  arguments; users may register and messages may come and go in between.
\<close>

inductive reachable :: "db \<Rightarrow> bool" where
  init: "chats d = [] \<Longrightarrow> reachable d"
| others: "reachable d \<Longrightarrow> reachable (d\<lparr>userIds := us, messages := ms\<rparr>)"
| one_on_one: "reachable d \<Longrightarrow> reachable (snd (findOrCreateOneOnOneChat now u1 u2 d))"
| access: "reachable d \<Longrightarrow> reachable (snd (accessChat now me uo d))"
| group: "reachable d \<Longrightarrow> reachable (snd (createGroupChat now me us nm ds d))"
| add: "reachable d \<Longrightarrow> reachable (snd (route_addToGroup now me cid uo d))"
| remove: "reachable d \<Longrightarrow> reachable (snd (route_removeFromGroup me cid uo d))"
| leave: "reachable d \<Longrightarrow> reachable (snd (leaveGroup me cid d))"

text \<open>The membership invariant of one chat: the members are exactly the users with
  an unread entry.\<close>

definition members_match :: "chat \<Rightarrow> bool" where
  "members_match c = (set (users c) = set (map ur_user (unreadCount c)))"

text \<open>The invariant over the whole store.\<close>

definition all_match :: "db \<Rightarrow> bool" where
  "all_match d = list_all members_match (chats d)"

section \<open>Real-time fan-out\<close>

text \<open>
  A Socket.io room is named by the id of a chat or by the id of a user (the private room
  every connection joins); ids of different documents never coincide, so the two kinds
  are kept apart by a tag.  A connection is named by its authenticated user.  An
  emission is a target together with an event: \<open>io.to(room).emit\<close> reaches every
  connection in the room, \<open>socket.to(room).emit\<close> every connection in the room but
  the emitting one, \<open>socket.emit\<close> the emitting connection alone.
\<close>

datatype room = ChatRoom oid | UserRoom oid

datatype event =
    MessageReceived message oid
  | Notification oid message oid
  | ChatUpdated oid message
  | MessageEdited oid "jsstring option" bool "time option"
  | UserTyping oid oid
  | UserStoppedTyping oid oid
  | ErrorEvent string

datatype target = Io room | SocketTo oid room | Socket oid

type_synonym emission = "target \<times> event"







section \<open>Sending messages\<close>





text \<open>\<open>editMessage\<close>, PUT /api/messages/:messageId.  The sender is populated first;
  when its user document is gone, reading its id throws.  \<open>message.save()\<close> validates
  the document again.\<close>

definition editMessage ::
  "(message \<Rightarrow> bool) \<Rightarrow> time \<Rightarrow> oid \<Rightarrow> oid \<Rightarrow> jsstring option \<Rightarrow> db
     \<Rightarrow> message response \<times> db \<times> emission list" where
  "editMessage valid now me messageId contentArg d =
     (case contentArg of
        None \<Rightarrow> (reply 400 False ''Message content is required'' None, d, [])
      | Some cnt \<Rightarrow>
          if cnt = [] \<or> length (trim cnt) = 0
          then (reply 400 False ''Message content is required'' None, d, [])
          else
            (case Message_findById messageId d of
               None \<Rightarrow> (reply 404 False ''Message not found'' None, d, [])
             | Some message \<Rightarrow>
                 if sender message \<notin> set (userIds d)
                 then (reply 500 False ''Server error while editing message'' None, d, [])
                 else if sender message \<noteq> me
                 then (reply 403 False ''You can only edit your own messages'' None, d, [])
                 else
                   let twentyFourHoursAgo = now - 24 * 60 * 60 * 1000
                   in if createdAt message < twentyFourHoursAgo
                      then (reply 400 False ''Cannot edit messages older than 24 hours'' None, d, [])
                      else
                        let edited = editContent now (trim cnt) message
                        in if \<not> valid edited
                           then (reply 500 False ''Server error while editing message'' None, d, [])
                           else (reply 200 True ''Message edited successfully'' (Some edited),
                                 Message_save edited d,
                                 [(Io (ChatRoom (msg_chat edited)),
                                   MessageEdited (msg_id edited) (content edited)
                                                 (isEdited edited) (editedAt edited))])))"

section \<open>Typing indicators over the real-time channel\<close>

text \<open>
  The \<open>typing\<close> and \<open>stop_typing\<close> handlers and the callback that \<open>typing\<close> hands
  to \<open>setTimeout(\<dots>, 5000)\<close>.  The state carries the store, the clock in milliseconds,
  the pending timers (due time, user, chat) in the order they were set, and the log of
  what was emitted, each entry tagged with the piece of code that emitted it.
\<close>

datatype origin = TypingHandler | StopTypingHandler | ExpiryTimer

record rt_state =
  rt_db :: db
  rt_clock :: time
  rt_timers :: "(time \<times> oid \<times> oid) list"
  rt_log :: "(origin \<times> emission) list"

definition typing :: "oid \<Rightarrow> oid \<Rightarrow> rt_state \<Rightarrow> rt_state" where
  "typing userId chatId s =
     (case Chat_findById chatId (rt_db s) of
        None \<Rightarrow> s
      | Some chat \<Rightarrow>
          if userId \<in> set (users chat)
          then s\<lparr>rt_db := Chat_save (addTypingUser (rt_clock s) userId chat) (rt_db s),
                 rt_log := rt_log s
                   @ [(TypingHandler, (SocketTo userId (ChatRoom chatId), UserTyping userId chatId))],
                 rt_timers := rt_timers s @ [(rt_clock s + 5000, userId, chatId)]\<rparr>
          else s)"

definition stop_typing :: "oid \<Rightarrow> oid \<Rightarrow> rt_state \<Rightarrow> rt_state" where
  "stop_typing userId chatId s =
     (case Chat_findById chatId (rt_db s) of
        None \<Rightarrow> s
      | Some chat \<Rightarrow>
          if userId \<in> set (users chat)
          then s\<lparr>rt_db := Chat_save (removeTypingUser userId chat) (rt_db s),
                 rt_log := rt_log s
                   @ [(StopTypingHandler,
                       (SocketTo userId (ChatRoom chatId), UserStoppedTyping userId chatId))]\<rparr>
          else s)"

definition typing_timeout :: "oid \<Rightarrow> oid \<Rightarrow> rt_state \<Rightarrow> rt_state" where
  "typing_timeout userId chatId s =
     (case Chat_findById chatId (rt_db s) of
        None \<Rightarrow> s
      | Some updatedChat \<Rightarrow>
          s\<lparr>rt_db := Chat_save (removeTypingUser userId updatedChat) (rt_db s),
            rt_log := rt_log s
              @ [(ExpiryTimer,
                  (SocketTo userId (ChatRoom chatId), UserStoppedTyping userId chatId))]\<rparr>)"

text \<open>Letting \<open>dt\<close> milliseconds pass runs the callbacks of the timers that fall due,
  in the order they were set.\<close>

fun fire :: "(time \<times> oid \<times> oid) list \<Rightarrow> rt_state \<Rightarrow> rt_state" where
  "fire [] s = s"
| "fire ((at, userId, chatId) # ts) s = fire ts (typing_timeout userId chatId s)"

definition wait :: "nat \<Rightarrow> rt_state \<Rightarrow> rt_state" where
  "wait dt s =
     (let t = rt_clock s + int dt
      in fire (filter (\<lambda>(at, u, c). at \<le> t) (rt_timers s))
              (s\<lparr>rt_clock := t, rt_timers := filter (\<lambda>(at, u, c). \<not> at \<le> t) (rt_timers s)\<rparr>))"

datatype rt_action = Typing oid oid | StopTyping oid oid | Wait nat

fun step :: "rt_action \<Rightarrow> rt_state \<Rightarrow> rt_state" where
  "step (Typing u c) s = typing u c s"
| "step (StopTyping u c) s = stop_typing u c s"
| "step (Wait dt) s = wait dt s"

fun run :: "rt_action list \<Rightarrow> rt_state \<Rightarrow> rt_state" where
  "run [] s = s"
| "run (a # as) s = run as (step a s)"








section \<open>Example data\<close>

text \<open>A text message "hi" of user 1 in chat 1, sent at time 1000, before any reaction.\<close>

definition example_message :: message where
  "example_message =
     \<lparr>msg_id = 1, sender = 1, content = Some (js ''hi''), msg_chat = 1, messageType = ''text'',
      reactions = [], replyTo = None, isEdited = False, editedAt = None, isDeleted = False,
      deletedAt = None, deletedBy = None, createdAt = 1000\<rparr>"

text \<open>A one-on-one chat of users 1 and 2 in which user 1 is typing, the store that holds
  it, a request to send "hi " to it, the same request as a reply to a message 99 that
  the store does not hold, and a validation that wants some content of at most 1000
  code units.\<close>

definition example_chat :: chat where
  "example_chat =
     \<lparr>chat_id = 1, chatName = js ''Private Chat'', isGroupChat = False, users = [1, 2],
      latestMessage = None, groupAdmin = None, groupDescription = None,
      unreadCount = [\<lparr>ur_user = 1, ur_count = 0, lastRead = 0\<rparr>,
                     \<lparr>ur_user = 2, ur_count = 4, lastRead = 0\<rparr>],
      typingUsers = [\<lparr>ty_user = 1, timestamp = 1500\<rparr>]\<rparr>"




definition example_valid :: "message \<Rightarrow> bool" where
  "example_valid m = (case content m of None \<Rightarrow> False | Some s \<Rightarrow> length s \<le> 1000)"

text \<open>A store with four users and no chat; a group that user 1 creates with users 2 and
  3, adds user 4 to and then leaves; a group whose only member, user 1, is its admin, with
  one message.\<close>

definition empty_db :: db where
  "empty_db = \<lparr>userIds = [1, 2, 3, 4], chats = [], messages = []\<rparr>"

definition example_group_db :: db where
  "example_group_db =
     snd (leaveGroup 1 1
       (snd (route_addToGroup 50 1 1 (Some 4)
         (snd (createGroupChat 10 1 (Some [2, 3]) (Some (js ''team'')) None empty_db)))))"

definition last_member_db :: db where
  "last_member_db =
     \<lparr>userIds = [1, 2, 3],
      chats = [\<lparr>chat_id = 1, chatName = js ''team'', isGroupChat = True, users = [1],
                latestMessage = Some 1, groupAdmin = Some 1, groupDescription = Some [],
                unreadCount = [\<lparr>ur_user = 1, ur_count = 0, lastRead = 0\<rparr>],
                typingUsers = []\<rparr>],
      messages = [example_message]\<rparr>"



section \<open>Reactions: one per user and message\<close>

lemma reactions_of_addReaction:
  "reactions_of u (addReaction now u e m) = [\<lparr>rc_user = u, emoji = e, rc_createdAt = now\<rparr>]"
proof -
  have "filter (\<lambda>r. rc_user r = u) (filter (\<lambda>r. rc_user r \<noteq> u) (reactions m)) = []"
    by (induction "reactions m") (auto simp: filter_empty_conv)
  then show ?thesis
    by (simp add: reactions_of_def addReaction_def)
qed

lemma distinct_filter_users:
  "distinct (map rc_user rs) \<Longrightarrow> distinct (map rc_user (filter P rs))"
  by (induction rs) auto

lemma reaction_op_distinct:
  "distinct (map rc_user (reactions m)) \<Longrightarrow>
   distinct (map rc_user (reactions (apply_reaction_op x m)))"
  by (cases x) (auto simp: addReaction_def removeReaction_def distinct_filter_users)

lemma reaction_ops_distinct:
  "distinct (map rc_user (reactions m)) \<Longrightarrow>
   distinct (map rc_user (reactions (apply_reaction_ops xs m)))"
  by (induction xs arbitrary: m) (simp_all add: reaction_op_distinct)

lemma distinct_at_most_one:
  "distinct (map f rs) \<Longrightarrow> length (filter (\<lambda>r. f r = u) rs) \<le> 1"
proof (induction rs)
  case Nil
  then show ?case by simp
next
  case (Cons r rs)
  show ?case
  proof (cases "f r = u")
    case True
    from Cons.prems have "f r \<notin> f ` set rs" by simp
    with True have "\<forall>x\<in>set rs. f x \<noteq> u"
      by blast
    then have "filter (\<lambda>r. f r = u) rs = []"
      by (simp add: filter_empty_conv)
    with True show ?thesis by simp
  next
    case False
    with Cons show ?thesis by simp
  qed
qed

text \<open>
  C2.  Whatever the message held before, after \<open>addReaction U e1\<close> followed by
  \<open>addReaction U e2\<close> the reactions of \<open>U\<close> are exactly one entry, with emoji
  \<open>e2\<close>; a single \<open>addReaction\<close> already replaces whatever \<open>U\<close> had; and a message
  that holds at most one reaction per user (a new message holds none) still does so
  after any sequence of add and remove operations.
\<close>

theorem reaction_one_per_user:
  "reactions_of u (addReaction t2 u e2 (addReaction t1 u e1 m))
     = [\<lparr>rc_user = u, emoji = e2, rc_createdAt = t2\<rparr>]
   \<and> reactions_of u (addReaction t1 u e1 m) = [\<lparr>rc_user = u, emoji = e1, rc_createdAt = t1\<rparr>]
   \<and> (distinct (map rc_user (reactions m)) \<longrightarrow>
        distinct (map rc_user (reactions (apply_reaction_ops ops m)))
        \<and> length (reactions_of v (apply_reaction_ops ops m)) \<le> 1)"
  using reaction_ops_distinct [of m ops]
        distinct_at_most_one [of rc_user "reactions (apply_reaction_ops ops m)" v]
  by (simp add: reactions_of_addReaction) (simp add: reactions_of_def)

theorem reaction_one_per_user_witness:
  "distinct (map rc_user (reactions example_message))
   \<and> reactions_of 2 (addReaction 20 2 ''b'' (addReaction 10 2 ''a'' example_message))
       = [\<lparr>rc_user = 2, emoji = ''b'', rc_createdAt = 20\<rparr>]
   \<and> length (reactions_of 2 (apply_reaction_ops
        [AddReaction 10 2 ''a'', AddReaction 11 3 ''c'', AddReaction 20 2 ''b'', RemoveReaction 3]
        example_message)) \<le> 1"
  using reaction_one_per_user [of 2 20 "''b''" 10 "''a''" example_message
          "[AddReaction 10 2 ''a'', AddReaction 11 3 ''c'', AddReaction 20 2 ''b'', RemoveReaction 3]" 2]
  by (simp add: example_message_def)

section \<open>Lists and the store\<close>

lemma find_append_if:
  "find P (xs @ ys) = (case find P xs of None \<Rightarrow> find P ys | Some x \<Rightarrow> Some x)"
  by (induction xs) auto

lemma find_Some_P: "find P xs = Some x \<Longrightarrow> P x \<and> x \<in> set xs"
  by (induction xs) (auto split: if_splits)

lemma find_update_first:
  "(\<And>x. P x \<Longrightarrow> P (f x)) \<Longrightarrow> find P (update_first P f xs) = map_option f (find P xs)"
  by (induction xs) auto

lemma find_update_first_other:
  "(\<And>x. Q (f x) = Q x) \<Longrightarrow> (\<And>x. P x \<Longrightarrow> \<not> Q x) \<Longrightarrow> find Q (update_first P f xs) = find Q xs"
  by (induction xs) auto


lemma set_update_first:
  "set (update_first P f xs) \<subseteq> set xs \<union> f ` {x \<in> set xs. P x}"
  by (induction xs) auto

lemma set_remove_first: "set (remove_first P xs) \<subseteq> set xs"
  by (induction xs) auto

lemma foldr_max_ge: "x \<in> set ids \<Longrightarrow> x \<le> foldr max ids (0::nat)"
  by (induction ids) auto

lemma fresh_id_notin: "fresh_id ids \<notin> set ids"
  using foldr_max_ge [of "fresh_id ids" ids] by (auto simp: fresh_id_def)

lemma find_None_fresh: "find (\<lambda>c. f c = fresh_id (map f xs)) xs = None"
proof -
  have "fresh_id (map f xs) \<notin> f ` set xs"
    using fresh_id_notin [of "map f xs"] by simp
  then have "\<forall>x\<in>set xs. f x \<noteq> fresh_id (map f xs)"
    by (metis imageI)
  then show ?thesis
    by (simp add: find_None_iff)
qed

section \<open>Unread counters\<close>

lemma Chat_findById_id: "Chat_findById cid d = Some c \<Longrightarrow> chat_id c = cid"
  using find_Some_P [of "\<lambda>c. chat_id c = cid" "chats d" c] by (simp add: Chat_findById_def)

lemma Chat_findById_save:
  "Chat_findById cid d = Some c0 \<Longrightarrow> chat_id c = cid \<Longrightarrow>
   Chat_findById cid (Chat_save c d) = Some c"
  by (simp add: Chat_findById_def Chat_save_def find_update_first)







section \<open>One-on-one chats are created once\<close>

lemma private_chat_valid:
  "Chat_valid \<lparr>chat_id = i, chatName = js ''Private Chat'', isGroupChat = False,
      users = us, latestMessage = None, groupAdmin = None, groupDescription = None,
      unreadCount = ur, typingUsers = []\<rparr>"
  by (simp add: Chat_valid_def js_def)

lemma Chat_create_found:
  "Chat_create c d = Some (n, d') \<Longrightarrow>
   chats d' = chats d @ [n] \<and> chat_id n = fresh_id (map chat_id (chats d))
   \<and> n = c\<lparr>chat_id := fresh_id (map chat_id (chats d))\<rparr>
   \<and> userIds d' = userIds d \<and> messages d' = messages d
   \<and> Chat_findById (chat_id n) d' = Some n"
  by (auto simp: Chat_create_def Let_def Chat_findById_def find_append_if find_None_fresh
           split: if_splits)

lemma Chat_create_store:
  "Chat_create c d = Some (n, d') \<Longrightarrow> d' = d\<lparr>chats := chats d @ [n]\<rparr>"
  by (auto simp: Chat_create_def Let_def split: if_splits)

text \<open>
  C4.  A request of the one-on-one chat of \<open>a\<close> and \<open>b\<close> answers with a chat of the store:
  the first stored chat that is not a group and holds both users.  Either that chat was
  there already and the store is left as it is, or there was none and the store has
  gained exactly this chat, with the members \<open>a\<close> and \<open>b\<close>, at its end and under an id
  that finds it.  A second request, with the users in the same or in the other order,
  creates nothing: it answers with that same chat and leaves the store as it is.
\<close>

theorem one_on_one_idempotent:
  "(case findOrCreateOneOnOneChat now a b d of
      (r1, d1) \<Rightarrow>
        (\<exists>c. r1 = Some c \<and> c \<in> set (chats d1)
           \<and> find (\<lambda>c. isGroupChat c = False \<and> (a \<in> set (users c) \<and> b \<in> set (users c)))
                   (chats d1) = Some c
           \<and> isGroupChat c = False \<and> a \<in> set (users c) \<and> b \<in> set (users c)
           \<and> (find (\<lambda>c. isGroupChat c = False \<and> (a \<in> set (users c) \<and> b \<in> set (users c)))
                     (chats d) = Some c \<and> d1 = d
                \<or> find (\<lambda>c. isGroupChat c = False \<and> (a \<in> set (users c) \<and> b \<in> set (users c)))
                       (chats d) = None
                  \<and> d1 = d\<lparr>chats := chats d @ [c]\<rparr> \<and> users c = [a, b]
                  \<and> Chat_findById (chat_id c) d1 = Some c))
        \<and> findOrCreateOneOnOneChat now' a b d1 = (r1, d1)
        \<and> findOrCreateOneOnOneChat now' b a d1 = (r1, d1))"
proof (cases "find (\<lambda>c. isGroupChat c = False \<and> (a \<in> set (users c) \<and> b \<in> set (users c))) (chats d)")
  case (Some c)
  moreover from Some have "find (\<lambda>c. isGroupChat c = False \<and> (b \<in> set (users c) \<and> a \<in> set (users c))) (chats d) = Some c"
    by (simp add: conj_commute)
  moreover from find_Some_P [OF Some]
  have "isGroupChat c = False \<and> a \<in> set (users c) \<and> b \<in> set (users c) \<and> c \<in> set (chats d)"
    by simp
  ultimately show ?thesis
    by (simp add: findOrCreateOneOnOneChat_def)
next
  case None
  let ?new = "\<lparr>chat_id = 0, chatName = js ''Private Chat'', isGroupChat = False,
                   users = [a, b], latestMessage = None, groupAdmin = None,
                   groupDescription = None,
                   unreadCount = [new_unread now a, new_unread now b],
                   typingUsers = []\<rparr>"
  obtain n d' where cr: "Chat_create ?new d = Some (n, d')"
    by (simp add: Chat_create_def Let_def Chat_valid_def js_def)
  note f = Chat_create_found [OF cr]
  from f have fnd: "Chat_findById (chat_id n) d' = Some n" by blast
  from f have app: "chats d' = chats d @ [n]" by blast
  note st = Chat_create_store [OF cr]
  have "findOrCreateOneOnOneChat now a b d = (Chat_findById (chat_id n) d', d')"
    using None cr by (simp add: findOrCreateOneOnOneChat_def)
  with fnd have res: "findOrCreateOneOnOneChat now a b d = (Some n, d')"
    by simp
  have n: "isGroupChat n = False \<and> users n = [a, b]"
    using f by simp
  have again: "find (\<lambda>c. isGroupChat c = False \<and> (a \<in> set (users c) \<and> b \<in> set (users c))) (chats d') = Some n"
    using None app n by (simp add: find_append_if)
  then have again': "find (\<lambda>c. isGroupChat c = False \<and> (b \<in> set (users c) \<and> a \<in> set (users c))) (chats d') = Some n"
    by (simp add: conj_commute)
  have mem: "n \<in> set (chats d')" using app by simp
  have first: "(find (\<lambda>c. isGroupChat c = False \<and> (a \<in> set (users c) \<and> b \<in> set (users c)))
                     (chats d) = Some n \<and> d' = d
                \<or> find (\<lambda>c. isGroupChat c = False \<and> (a \<in> set (users c) \<and> b \<in> set (users c)))
                       (chats d) = None
                  \<and> d' = d\<lparr>chats := chats d @ [n]\<rparr> \<and> users n = [a, b]
                  \<and> Chat_findById (chat_id n) d' = Some n)"
    using None st n fnd by blast
  have second: "findOrCreateOneOnOneChat now' a b d' = (Some n, d')
        \<and> findOrCreateOneOnOneChat now' b a d' = (Some n, d')"
    using again again' by (simp add: findOrCreateOneOnOneChat_def)
  from n have n': "isGroupChat n = False \<and> a \<in> set (users n) \<and> b \<in> set (users n)"
    by simp
  show ?thesis
    unfolding res using mem again n' first second by simp
qed

section \<open>Members and unread entries\<close>

lemma uniq_acc: "set (foldl (\<lambda>acc x. if x \<in> set acc then acc else acc @ [x]) acc xs) = set acc \<union> set xs"
  by (induction xs arbitrary: acc) auto

lemma set_uniq: "set (uniq xs) = set xs"
  by (simp add: uniq_def uniq_acc)

lemma map_new_unread: "map ur_user (map (new_unread now) xs) = xs"
  by (induction xs) (simp_all add: new_unread_def)

lemma all_match_update_first:
  assumes "list_all members_match xs" and "\<And>x. members_match x \<Longrightarrow> members_match (f x)"
  shows "list_all members_match (update_first P f xs)"
  using assms by (induction xs) auto

lemma all_match_remove_first:
  "list_all members_match xs \<Longrightarrow> list_all members_match (remove_first P xs)"
  by (induction xs) auto

lemma all_match_create:
  "all_match d \<Longrightarrow> members_match c \<Longrightarrow> Chat_create c d = Some (n, d') \<Longrightarrow> all_match d'"
  by (auto simp: all_match_def Chat_create_def Let_def members_match_def split: if_splits)

lemma all_match_save:
  "all_match d \<Longrightarrow> members_match c \<Longrightarrow> all_match (Chat_save c d)"
  by (simp add: all_match_def Chat_save_def all_match_update_first)

lemma all_match_find: "all_match d \<Longrightarrow> Chat_findById cid d = Some c \<Longrightarrow> members_match c"
  using find_Some_P [of "\<lambda>c. chat_id c = cid" "chats d" c]
  by (auto simp: all_match_def Chat_findById_def list_all_iff)

lemma members_match_leave:
  "members_match c \<Longrightarrow>
   members_match (c\<lparr>users := filter (\<lambda>u. u \<noteq> me) (users c),
                    unreadCount := filter (\<lambda>item. ur_user item \<noteq> me) (unreadCount c)\<rparr>)"
  by (auto simp: members_match_def)

lemma members_match_add:
  "members_match c \<Longrightarrow>
   members_match (c\<lparr>users := users c @ [uid], unreadCount := unreadCount c @ [new_unread now uid]\<rparr>)"
  by (auto simp: members_match_def new_unread_def)

lemma all_match_create_snd:
  "all_match d \<Longrightarrow> members_match c \<Longrightarrow>
   all_match (case Chat_create c d of None \<Rightarrow> d | Some (n, d') \<Rightarrow> d')"
  by (auto simp: all_match_create split: option.splits)

lemma all_match_one_on_one:
  assumes "all_match d"
  shows "all_match (snd (findOrCreateOneOnOneChat now a b d))"
proof -
  let ?new = "\<lparr>chat_id = 0, chatName = js ''Private Chat'', isGroupChat = False,
                   users = [a, b], latestMessage = None, groupAdmin = None,
                   groupDescription = None,
                   unreadCount = [new_unread now a, new_unread now b],
                   typingUsers = []\<rparr>"
  have "members_match ?new"
    by (simp add: members_match_def new_unread_def)
  from all_match_create_snd [OF assms this] assms show ?thesis
    by (auto simp: findOrCreateOneOnOneChat_def split: option.splits)
qed

lemma all_match_access:
  assumes "all_match d"
  shows "all_match (snd (accessChat now me uo d))"
proof (cases uo)
  case None
  with assms show ?thesis by (simp add: accessChat_def)
next
  case (Some uid)
  obtain r d' where fc: "findOrCreateOneOnOneChat now me uid d = (r, d')"
    by (cases "findOrCreateOneOnOneChat now me uid d")
  with all_match_one_on_one [OF assms, of now me uid] have "all_match d'"
    by simp
  with assms Some fc show ?thesis
    by (auto simp: accessChat_def split: option.splits)
qed

lemma all_match_group:
  assumes "all_match d"
  shows "all_match (snd (createGroupChat now me us nm ds d))"
proof -
  have new: "\<And>n g xs. members_match
      \<lparr>chat_id = 0, chatName = n, isGroupChat = True, users = uniq xs,
       latestMessage = None, groupAdmin = Some me, groupDescription = g,
       unreadCount = map (new_unread now) (uniq xs), typingUsers = []\<rparr>"
    by (simp add: members_match_def new_unread_def)
  note cr = all_match_create [OF assms new]
  show ?thesis
    using assms
    by (auto simp: createGroupChat_def Let_def split: option.splits dest: cr)
qed

lemma all_match_add:
  "all_match d \<Longrightarrow> all_match (snd (route_addToGroup now me cid uo d))"
  by (auto simp: route_addToGroup_def addToGroup_def Let_def Chat_findByIdAndUpdate_def
                 all_match_def members_match_add
           split: sum.splits option.splits intro!: all_match_update_first)

lemma all_match_remove:
  "all_match d \<Longrightarrow> all_match (snd (route_removeFromGroup me cid uo d))"
  by (auto simp: route_removeFromGroup_def removeFromGroup_def Let_def
                 Chat_findByIdAndUpdate_def all_match_def members_match_leave
           split: sum.splits option.splits intro!: all_match_update_first)

lemma all_match_leave_and_save:
  "all_match d \<Longrightarrow> members_match c \<Longrightarrow> all_match (snd (leave_and_save me c d))"
  by (simp add: leave_and_save_def all_match_save members_match_leave)

lemma all_match_delete:
  "all_match d \<Longrightarrow> all_match (Chat_findByIdAndDelete cid d)"
  by (simp add: all_match_def Chat_findByIdAndDelete_def all_match_remove_first)

lemma all_match_leave:
  assumes "all_match d"
  shows "all_match (snd (leaveGroup me cid d))"
proof (cases "Chat_findById cid d")
  case None
  with assms show ?thesis by (simp add: leaveGroup_def)
next
  case (Some c)
  have m: "members_match c" using all_match_find [OF assms Some] .
  then have m': "\<And>x. members_match (c\<lparr>groupAdmin := x\<rparr>)"
    by (simp add: members_match_def)
  show ?thesis
    using assms Some m m'
    by (auto simp: leaveGroup_def all_match_leave_and_save all_match_delete
             split: option.splits list.splits)
qed

text \<open>
  C5.  In every chat of a store that the chat operations can build (one-on-one create,
  group create, add member, remove member, leave group), a user is a member if and only
  if the unread list has an entry for the user.
\<close>

theorem members_iff_unread:
  "reachable d \<Longrightarrow> \<forall>c \<in> set (chats d). \<forall>u. u \<in> set (users c) \<longleftrightarrow> u \<in> ur_user ` set (unreadCount c)"
proof -
  assume "reachable d"
  then have "all_match d"
  proof (induction rule: reachable.induct)
    case (init d)
    then show ?case by (simp add: all_match_def)
  next
    case (others d us ms)
    then show ?case by (simp add: all_match_def)
  next
    case (one_on_one d now u1 u2)
    then show ?case by (simp add: all_match_one_on_one)
  next
    case (access d now me uo)
    then show ?case by (simp add: all_match_access)
  next
    case (group d now me us nm ds)
    then show ?case by (simp add: all_match_group)
  next
    case (add d now me cid uo)
    then show ?case by (simp add: all_match_add)
  next
    case (remove d me cid uo)
    then show ?case by (simp add: all_match_remove)
  next
    case (leave d me cid)
    then show ?case by (simp add: all_match_leave)
  qed
  then show ?thesis
    by (auto simp: all_match_def list_all_iff members_match_def)
qed

theorem members_iff_unread_witness:
  "reachable example_group_db
   \<and> hd (chats example_group_db) \<in> set (chats example_group_db)
   \<and> users (hd (chats example_group_db)) = [2, 3, 4]
   \<and> 4 \<in> ur_user ` set (unreadCount (hd (chats example_group_db)))"
proof -
  have r: "reachable example_group_db"
    unfolding example_group_db_def
    by (intro reachable.leave reachable.add reachable.group reachable.init)
       (simp add: empty_db_def)
  have m: "hd (chats example_group_db) \<in> set (chats example_group_db)"
    by code_simp
  have u: "users (hd (chats example_group_db)) = [2, 3, 4]"
    by code_simp
  from members_iff_unread [OF r] m
  have "(4 \<in> set (users (hd (chats example_group_db))))
          = (4 \<in> ur_user ` set (unreadCount (hd (chats example_group_db))))"
    by blast
  with u have "4 \<in> ur_user ` set (unreadCount (hd (chats example_group_db)))"
    by simp
  with r m u show ?thesis by blast
qed

section \<open>Leaving a group\<close>

text \<open>
  The half of C6 that the code keeps: when the admin leaves and somebody remains, the
  chat stays, with the remaining members and the first of them as admin.  When the admin
  is the last member the chat is deleted; \<open>leaveGroup\<close> never touches the messages.
\<close>

lemma leaveGroup_messages: "messages (snd (leaveGroup me cid d)) = messages d"
  by (simp add: leaveGroup_def leave_and_save_def Chat_save_def Chat_findByIdAndDelete_def
           split: option.splits list.splits)

lemma leaveGroup_admin_handover:
  assumes "Chat_findById cid d = Some c" and "isGroupChat c" and "groupAdmin c = Some me"
    and "me \<in> set (users c)" and "filter (\<lambda>u. u \<noteq> me) (users c) = first # rest"
  shows "success (fst (leaveGroup me cid d))
     \<and> Chat_findById cid (snd (leaveGroup me cid d))
         = Some (c\<lparr>groupAdmin := Some first, users := first # rest,
                   unreadCount := filter (\<lambda>item. ur_user item \<noteq> me) (unreadCount c)\<rparr>)"
proof -
  let ?c = "c\<lparr>groupAdmin := Some first, users := first # rest,
                   unreadCount := filter (\<lambda>item. ur_user item \<noteq> me) (unreadCount c)\<rparr>"
  have id: "chat_id ?c = cid" using Chat_findById_id [OF assms(1)] by simp
  have "leaveGroup me cid d = (reply 200 True ''Left group successfully'' None, Chat_save ?c d)"
    using assms by (simp add: leaveGroup_def leave_and_save_def)
  with Chat_findById_save [OF assms(1) id] show ?thesis
    by (simp add: reply_def)
qed

lemma find_remove_first_distinct:
  "distinct (map f xs) \<Longrightarrow> find (\<lambda>x. f x = k) (remove_first (\<lambda>x. f x = k) xs) = None"
proof (induction xs)
  case Nil
  then show ?case by simp
next
  case (Cons x xs)
  show ?case
  proof (cases "f x = k")
    case True
    with Cons.prems have "k \<notin> f ` set xs" by auto
    then have "\<forall>y\<in>set xs. f y \<noteq> k" by (metis imageI)
    with True show ?thesis by (simp add: find_None_iff)
  next
    case False
    with Cons show ?thesis by simp
  qed
qed

lemma leaveGroup_last_member:
  assumes "Chat_findById cid d = Some c" and "isGroupChat c" and "groupAdmin c = Some me"
    and "me \<in> set (users c)" and "filter (\<lambda>u. u \<noteq> me) (users c) = []"
    and "distinct (map chat_id (chats d))"
  shows "success (fst (leaveGroup me cid d))
     \<and> Chat_findById cid (snd (leaveGroup me cid d)) = None
     \<and> messages (snd (leaveGroup me cid d)) = messages d"
proof -
  have "leaveGroup me cid d
          = (reply 200 True ''Group deleted as you were the last member'' None,
             Chat_findByIdAndDelete (chat_id c) d)"
    using assms by (simp add: leaveGroup_def)
  moreover have "chat_id c = cid" using Chat_findById_id [OF assms(1)] .
  ultimately show ?thesis
    using find_remove_first_distinct [OF assms(6), of cid]
    by (simp add: reply_def Chat_findById_def Chat_findByIdAndDelete_def)
qed

text \<open>
  C6, at the failing input.  User 1 is the admin and the only member of group 1, which
  holds one message.  When user 1 leaves, \<open>leaveGroup\<close> deletes the chat and nothing
  else: the message stays in the store.  \<open>deleteChat\<close> on the same store deletes the
  messages of the chat before the chat.
\<close>

theorem leaveGroup_last_member_keeps_messages:
  "leaveGroup 1 1 last_member_db
     = (reply 200 True ''Group deleted as you were the last member'' None,
        last_member_db\<lparr>chats := []\<rparr>)
   \<and> messages_of_chat 1 (snd (leaveGroup 1 1 last_member_db)) = [example_message]
   \<and> messages_of_chat 1 (snd (deleteChat 1 1 last_member_db)) = []"
  by code_simp

section \<open>Creating a group\<close>

text \<open>
  What the code keeps of C9: a rejected request leaves the store as it is, and a request
  that does not list the requester, once accepted, creates a group of the requester and
  the listed users, at least three in all.
\<close>

lemma uniq_acc_distinct:
  "distinct (acc @ xs) \<Longrightarrow> foldl (\<lambda>acc x. if x \<in> set acc then acc else acc @ [x]) acc xs = acc @ xs"
  by (induction xs arbitrary: acc) auto

lemma uniq_distinct: "distinct xs \<Longrightarrow> uniq xs = xs"
  using uniq_acc_distinct [of "[]" xs] by (simp add: uniq_def)

lemma length_filter_mem:
  assumes "distinct ys"
  shows "length (filter (\<lambda>u. u \<in> set xs) ys) \<le> card (set xs)"
proof -
  have "distinct (filter (\<lambda>u. u \<in> set xs) ys)" using assms by simp
  then have "length (filter (\<lambda>u. u \<in> set xs) ys) = card (set (filter (\<lambda>u. u \<in> set xs) ys))"
    by (rule distinct_card [symmetric])
  also have "\<dots> \<le> card (set xs)"
    by (rule card_mono) auto
  finally show ?thesis .
qed

lemma createGroupChat_rejected_unchanged:
  "status (fst (createGroupChat now me us nm ds d)) \<noteq> 201 \<Longrightarrow>
   snd (createGroupChat now me us nm ds d) = d"
  by (auto simp: createGroupChat_def Let_def reply_def split: option.splits if_splits)

lemma createGroupChat_three_members:
  assumes "status (fst (createGroupChat now me (Some us) nm ds d)) = 201"
    and "distinct (userIds d)" and "me \<notin> set us"
  shows "\<exists>c. payload (fst (createGroupChat now me (Some us) nm ds d)) = Some c
     \<and> isGroupChat c \<and> users c = me # us \<and> 3 \<le> length (users c)"
proof -
  have len: "\<not> length us < 2"
    using assms(1) by (auto simp: createGroupChat_def reply_def)
  obtain n where n: "nm = Some n" "n \<noteq> []" "length (trim n) \<noteq> 0"
    using assms(1) len
    by (cases nm) (auto simp: createGroupChat_def reply_def split: if_splits)
  have valid: "length (filter (\<lambda>u. u \<in> set us) (userIds d)) = length us"
    using assms(1) len n
    by (auto simp: createGroupChat_def reply_def Let_def split: if_splits)
  have "length us \<le> card (set us)"
    using length_filter_mem [OF assms(2), of us] valid by simp
  then have "card (set us) = length us"
    using card_length [of us] by simp
  then have "distinct us" by (simp add: card_distinct)
  with assms(3) have u: "uniq (me # us) = me # us"
    by (simp add: uniq_distinct)
  let ?new = "\<lparr>chat_id = 0, chatName = trim n, isGroupChat = True,
                users = me # us, latestMessage = None, groupAdmin = Some me,
                groupDescription = Some (case ds of None \<Rightarrow> [] | Some g \<Rightarrow> if g = [] then [] else trim g),
                unreadCount = map (new_unread now) (me # us), typingUsers = []\<rparr>"
  have r: "createGroupChat now me (Some us) nm ds d
     = (case Chat_create ?new d of
          None \<Rightarrow> (reply 500 False ''Server error while creating group chat'' None, d)
        | Some (groupChat, d') \<Rightarrow>
            (reply 201 True ''Group chat created successfully''
                   (Chat_findById (chat_id groupChat) d'), d'))"
    using len n valid u by (simp add: createGroupChat_def Let_def)
  obtain g d' where cr: "Chat_create ?new d = Some (g, d')"
    using assms(1) r by (cases "Chat_create ?new d") (auto simp: reply_def)
  note f = Chat_create_found [OF cr]
  from f have fnd: "Chat_findById (chat_id g) d' = Some g" by blast
  from f have g: "isGroupChat g \<and> users g = me # us" by simp
  from r cr fnd have "payload (fst (createGroupChat now me (Some us) nm ds d)) = Some g"
    by (simp add: reply_def)
  with g len show ?thesis by simp
qed

text \<open>
  C9, at the failing input.  User 1 asks for a group of the users 1 and 2.  The list has
  two entries and both users exist, so every check passes; the requester is then added
  and the duplicates are removed, and the group is created with the two members 1 and 2.
\<close>

theorem createGroupChat_two_members:
  "(case createGroupChat 10 1 (Some [1, 2]) (Some (js ''team'')) None empty_db of
      (r, d') \<Rightarrow> status r = 201 \<and> success r
        \<and> map_option users (payload r) = Some [1, 2]
        \<and> map (\<lambda>c. (isGroupChat c, users c)) (chats d') = [(True, [1, 2])])"
  by code_simp
section \<open>The edit window\<close>

lemma Message_findById_save:
  "Message_findById mid d = Some m0 \<Longrightarrow> msg_id m = mid \<Longrightarrow>
   Message_findById mid (Message_save m d) = Some m"
  by (simp add: Message_findById_def Message_save_def find_update_first)

lemma Message_findById_id: "Message_findById mid d = Some m \<Longrightarrow> msg_id m = mid"
  using find_Some_P [of "\<lambda>m. msg_id m = mid" "messages d" m] by (simp add: Message_findById_def)

lemma editMessage_too_old:
  assumes "Message_findById mid d = Some m" and "createdAt m < now - 86400000"
  shows "\<not> success (fst (editMessage valid now me mid cnt d))
         \<and> fst (snd (editMessage valid now me mid cnt d)) = d
         \<and> snd (snd (editMessage valid now me mid cnt d)) = []"
  using assms by (auto simp: editMessage_def Let_def reply_def split: option.splits)

lemma editMessage_in_window:
  assumes "Message_findById mid d = Some m" and "now - 86400000 \<le> createdAt m"
    and "sender m = me" and "me \<in> set (userIds d)"
    and "trim cnt \<noteq> []" and "valid (editContent now (trim cnt) m)"
  shows "success (fst (editMessage valid now me mid (Some cnt) d))
         \<and> Message_findById mid (fst (snd (editMessage valid now me mid (Some cnt) d)))
             = Some (m\<lparr>content := Some (trim cnt), isEdited := True, editedAt := Some now\<rparr>)"
proof -
  have ne: "cnt \<noteq> []" using assms(5) by (auto simp: trim_def)
  have id: "msg_id (editContent now (trim cnt) m) = mid"
    using Message_findById_id [OF assms(1)] by (simp add: editContent_def)
  have "editMessage valid now me mid (Some cnt) d
         = (reply 200 True ''Message edited successfully'' (Some (editContent now (trim cnt) m)),
            Message_save (editContent now (trim cnt) m) d,
            [(Io (ChatRoom (msg_chat (editContent now (trim cnt) m))),
              MessageEdited (msg_id (editContent now (trim cnt) m)) (content (editContent now (trim cnt) m))
                 (isEdited (editContent now (trim cnt) m)) (editedAt (editContent now (trim cnt) m)))])"
    using assms ne by (simp add: editMessage_def Let_def)
  then show ?thesis
    using Message_findById_save [OF assms(1) id]
    by (simp add: reply_def editContent_def)
qed

text \<open>Content that is blank to JavaScript, such as a lone NO-BREAK SPACE or LINE
  SEPARATOR, is refused before the message is looked up.\<close>

lemma editMessage_blank:
  "trim cnt = [] \<Longrightarrow>
   status (fst (editMessage valid now me mid (Some cnt) d)) = 400
   \<and> fst (snd (editMessage valid now me mid (Some cnt) d)) = d"
  by (simp add: editMessage_def reply_def)

lemma trim_unicode_space: "trim [0x00A0] = [] \<and> trim [0x2028, 0x0020, 0xFEFF] = []"
  by (simp add: trim_def js_whitespace_def)

text \<open>
  C7.  A message older than 24 hours: the edit request, of its sender as of anybody, is
  answered without success and the store, hence the content, the edited flag and the
  edit time of the message, stay as they are.  A message inside the window, edited by
  its sender with some content that is not blank and passes the schema validation: the
  request succeeds, the content is replaced by the trimmed new content, the edited flag
  is set and the edit time is the time of the request.
\<close>

theorem edit_window:
  "Message_findById mid d = Some m \<Longrightarrow>
   (createdAt m < now - 24 * 60 * 60 * 1000 \<longrightarrow>
      \<not> success (fst (editMessage valid now me mid cnt d))
      \<and> fst (snd (editMessage valid now me mid cnt d)) = d)
   \<and> (now - 24 * 60 * 60 * 1000 \<le> createdAt m \<and> sender m = me \<and> me \<in> set (userIds d)
        \<and> cnt = Some new \<and> trim new \<noteq> [] \<and> valid (editContent now (trim new) m) \<longrightarrow>
      success (fst (editMessage valid now me mid cnt d))
      \<and> (\<exists>m'. Message_findById mid (fst (snd (editMessage valid now me mid cnt d))) = Some m'
            \<and> content m' = Some (trim new) \<and> isEdited m' \<and> editedAt m' = Some now))"
  using editMessage_too_old [of mid d m now valid me cnt]
        editMessage_in_window [of mid d m now me new valid]
  by auto

theorem edit_window_witness:
  "Message_findById 1 last_member_db = Some example_message
   \<and> createdAt example_message < 86401001 - 24 * 60 * 60 * 1000
   \<and> \<not> success (fst (editMessage example_valid 86401001 1 1 (Some (js ''new'')) last_member_db))
   \<and> fst (snd (editMessage example_valid 86401001 1 1 (Some (js ''new'')) last_member_db)) = last_member_db
   \<and> 5000 - 24 * 60 * 60 * 1000 \<le> createdAt example_message
   \<and> sender example_message = 1 \<and> 1 \<in> set (userIds last_member_db)
   \<and> trim (js '' new '') \<noteq> [] \<and> example_valid (editContent 5000 (trim (js '' new '')) example_message)
   \<and> success (fst (editMessage example_valid 5000 1 1 (Some (js '' new '')) last_member_db))
   \<and> (\<exists>m'. Message_findById 1 (fst (snd (editMessage example_valid 5000 1 1 (Some (js '' new '')) last_member_db))) = Some m'
          \<and> content m' = Some (trim (js '' new '')) \<and> isEdited m' \<and> editedAt m' = Some 5000)"
proof -
  have h: "Message_findById 1 last_member_db = Some example_message" by code_simp
  have old: "createdAt example_message < 86401001 - 24 * 60 * 60 * 1000" by code_simp
  have new: "5000 - 24 * 60 * 60 * 1000 \<le> createdAt example_message
     \<and> sender example_message = 1 \<and> 1 \<in> set (userIds last_member_db)
     \<and> trim (js '' new '') \<noteq> [] \<and> example_valid (editContent 5000 (trim (js '' new '')) example_message)"
    by code_simp
  show ?thesis
    using h old new
      edit_window [OF h, where now = 86401001 and valid = example_valid and me = 1
                           and cnt = "Some (js ''new'')" and new = "js ''new''"]
      edit_window [OF h, where now = 5000 and valid = example_valid and me = 1
                           and cnt = "Some (js '' new '')" and new = "js '' new ''"]
    by simp
qed

section \<open>Sending over HTTP and over the real-time channel\<close>













section \<open>Expiry of typing indicators\<close>




lemma run_append: "run (xs @ ys) s = run ys (run xs s)"
  by (induction xs arbitrary: s) simp_all




















section \<open>Typing entries\<close>

lemma distinct_filter_map:
  "distinct (map f xs) \<Longrightarrow> distinct (map f (filter P xs))"
  by (induction xs) auto

lemma typing_op_distinct:
  "distinct (map ty_user (typingUsers c)) \<Longrightarrow>
   distinct (map ty_user (typingUsers (apply_typing_op x c)))"
  by (cases x)
     (auto simp: addTypingUser_def removeTypingUser_def cleanOldTypingIndicators_def
                 distinct_filter_map)

lemma typing_ops_distinct:
  "distinct (map ty_user (typingUsers c)) \<Longrightarrow>
   distinct (map ty_user (typingUsers (apply_typing_ops xs c)))"
  by (induction xs arbitrary: c) (simp_all add: typing_op_distinct)

lemma cleanOld_keeps:
  "typingUsers (cleanOldTypingIndicators now c)
     = filter (\<lambda>item. now - timestamp item < 5000) (typingUsers c)"
  unfolding cleanOldTypingIndicators_def Let_def
  by (simp cong: filter_cong) (rule filter_cong, simp, arith)

lemma typing_one_per_user:
  "distinct (map ty_user (typingUsers c)) \<Longrightarrow>
   length (filter (\<lambda>item. ty_user item = u) (typingUsers (apply_typing_ops ops c))) \<le> 1"
  using distinct_at_most_one [of ty_user "typingUsers (apply_typing_ops ops c)" u]
        typing_ops_distinct [of c ops]
  by simp

text \<open>
  C10, as the code has it.  A chat that holds at most one typing entry per user (a new
  chat holds none) still does so after any sequence of \<open>addTypingUser\<close>,
  \<open>removeTypingUser\<close> and \<open>cleanOldTypingIndicators\<close>; and
  \<open>cleanOldTypingIndicators\<close> keeps, unchanged and in their order, exactly the entries
  that are less than five seconds old: it removes those that are five seconds old or
  older.
\<close>

theorem typing_entries:
  "(distinct (map ty_user (typingUsers c)) \<longrightarrow>
      distinct (map ty_user (typingUsers (apply_typing_ops ops c)))
      \<and> length (filter (\<lambda>item. ty_user item = u) (typingUsers (apply_typing_ops ops c))) \<le> 1)
   \<and> typingUsers (cleanOldTypingIndicators now c)
       = filter (\<lambda>item. now - timestamp item < 5000) (typingUsers c)"
  using typing_ops_distinct [of c ops] typing_one_per_user [of c u ops] cleanOld_keeps [of now c]
  by simp

theorem typing_entries_witness:
  "distinct (map ty_user (typingUsers example_chat))
   \<and> distinct (map ty_user (typingUsers (apply_typing_ops
         [AddTyping 2000 2, AddTyping 3000 1, CleanOld 7000, RemoveTyping 2] example_chat)))
   \<and> length (filter (\<lambda>item. ty_user item = 1) (typingUsers (apply_typing_ops
         [AddTyping 2000 2, AddTyping 3000 1, CleanOld 7000, RemoveTyping 2] example_chat))) \<le> 1
   \<and> typingUsers (cleanOldTypingIndicators 6000 example_chat)
       = filter (\<lambda>item. 6000 - timestamp item < 5000) (typingUsers example_chat)"
proof -
  have h: "distinct (map ty_user (typingUsers example_chat))" by code_simp
  from h typing_entries [of example_chat
          "[AddTyping 2000 2, AddTyping 3000 1, CleanOld 7000, RemoveTyping 2]" 1 6000]
  show ?thesis by blast
qed

text \<open>
  C10, as stated, fails at the boundary: the typing entry of the example chat is exactly
  five seconds old at time 6500, not more, and \<open>cleanOldTypingIndicators\<close> removes it.
\<close>

theorem cleanOld_at_five_seconds:
  "map (\<lambda>item. 6500 - timestamp item) (typingUsers example_chat) = [5000]
   \<and> typingUsers (cleanOldTypingIndicators 6500 example_chat) = []"
  by code_simp

end
